theory Spec2Isabelle
  imports Main "HOL-Library.Sublist" "HOL-Library.List_Lexorder" "HOL-Library.Char_ord"
    "HOL-Library.Multiset"
begin

section \<open>Python text\<close>

text \<open>
  Python \<open>str\<close> values are modelled as \<open>string\<close>: one \<open>char\<close> per code point for
  ASCII text, the UTF-8 bytes for anything beyond it.  The library functions below treat
  the ASCII range as Python does and leave every other byte alone.
\<close>

definition py_isspace :: "char \<Rightarrow> bool" where
  "py_isspace c = (let n = (of_char c :: nat) in (9 \<le> n \<and> n \<le> 13) \<or> (28 \<le> n \<and> n \<le> 32))"

definition py_strip :: "string \<Rightarrow> string" where
  "py_strip s = rev (dropWhile py_isspace (rev (dropWhile py_isspace s)))"

definition py_lower_char :: "char \<Rightarrow> char" where
  "py_lower_char c = (let n = (of_char c :: nat) in if 65 \<le> n \<and> n \<le> 90 then char_of (n + 32) else c)"

definition py_lower :: "string \<Rightarrow> string" where
  "py_lower s = map py_lower_char s"

text \<open>\<open>py_contains sub s\<close> is Python's \<open>sub in s\<close> on strings.\<close>

fun py_contains :: "string \<Rightarrow> string \<Rightarrow> bool" where
  "py_contains sub [] = (sub = [])"
| "py_contains sub (c # s) = (prefix sub (c # s) \<or> py_contains sub s)"

text \<open>\<open>py_split sep s\<close> is \<open>s.split(sep)\<close> for a one-character separator.\<close>

fun py_split :: "char \<Rightarrow> string \<Rightarrow> string list" where
  "py_split sep [] = [[]]"
| "py_split sep (c # s) =
     (if c = sep then [] # py_split sep s
      else (case py_split sep s of [] \<Rightarrow> [[c]] | w # ws \<Rightarrow> (c # w) # ws))"


lemma py_split_nonempty: "py_split sep s \<noteq> []"
  by (induction s) (auto split: list.splits)


text \<open>\<open>py_splitlines s\<close> is \<open>s.splitlines()\<close>: a line ends at LF, CR, CR LF, VT, FF, FS, GS
  or RS, and a final line break opens no empty last line.\<close>

definition is_linebreak :: "char \<Rightarrow> bool" where
  "is_linebreak c = (let n = (of_char c :: nat) in (10 \<le> n \<and> n \<le> 13) \<or> (28 \<le> n \<and> n \<le> 30))"

fun lines_from :: "string \<Rightarrow> string \<Rightarrow> string list" where
  "lines_from cur [] = (if cur = [] then [] else [rev cur])"
| "lines_from cur [c] = (if is_linebreak c then [rev cur] else [rev (c # cur)])"
| "lines_from cur (c # d # s) =
     (if c = CHR 0x0D \<and> d = CHR 0x0A then rev cur # lines_from [] s
      else if is_linebreak c then rev cur # lines_from [] (d # s)
      else lines_from (c # cur) (d # s))"

definition py_splitlines :: "string \<Rightarrow> string list" where
  "py_splitlines s = lines_from [] s"

definition is_digit :: "char \<Rightarrow> bool" where
  "is_digit c = (let n = (of_char c :: nat) in 48 \<le> n \<and> n \<le> 57)"

definition digit_val :: "char \<Rightarrow> nat" where
  "digit_val c = of_char c - 48"

definition nat_of_digits :: "string \<Rightarrow> nat" where
  "nat_of_digits ds = foldl (\<lambda>n c. 10 * n + digit_val c) 0 ds"

text \<open>\<open>str(n)\<close> of a non-negative integer, and of any integer.\<close>

fun digits_of :: "nat \<Rightarrow> string" where
  "digits_of n =
     (if n < 10 then [''0123456789'' ! n] else digits_of (n div 10) @ [''0123456789'' ! (n mod 10)])"

declare digits_of.simps [simp del]

definition py_str_int :: "int \<Rightarrow> string" where
  "py_str_int i = (if i < 0 then CHR ''-'' # digits_of (nat (- i)) else digits_of (nat i))"

text \<open>\<open>a or b or ... or d\<close> on strings: the first non-empty operand, else the last.\<close>

fun py_or :: "string list \<Rightarrow> string \<Rightarrow> string" where
  "py_or [] d = d"
| "py_or (x # xs) d = (if x \<noteq> [] then x else py_or xs d)"

section \<open>Python values\<close>

text \<open>
  What \<open>json.load\<close> and \<open>yaml.safe_load\<close> return, and what the response dictionaries hold:
  \<open>None\<close>, booleans, integers, strings, lists and dictionaries (association lists in
  insertion order).  \<open>POther t s r\<close> stands for a value of any other type (a float, a
  date): it is not a string, a list or a dictionary, cannot be iterated and has no \<open>get\<close>;
  \<open>t\<close> is its truth value, \<open>s\<close> the text \<open>str()\<close> gives for it and \<open>r\<close> the text of \<open>repr()\<close>.
\<close>

datatype pyval =
  PNone | PBool bool | PInt int | PStr string | PList "pyval list"
  | PDict "(pyval \<times> pyval) list" | POther bool string string

text \<open>Python's truth value (\<open>x or default\<close>, \<open>if x:\<close>).\<close>

fun truthy :: "pyval \<Rightarrow> bool" where
  "truthy PNone = False"
| "truthy (PBool b) = b"
| "truthy (PInt i) = (i \<noteq> 0)"
| "truthy (PStr s) = (s \<noteq> [])"
| "truthy (PList xs) = (xs \<noteq> [])"
| "truthy (PDict kvs) = (kvs \<noteq> [])"
| "truthy (POther t s r) = t"

text \<open>\<open>dict_get kvs k\<close> is \<open>d.get(k)\<close> for a string key: \<open>None\<close> when the key is absent.\<close>

definition dict_get :: "(pyval \<times> pyval) list \<Rightarrow> string \<Rightarrow> pyval" where
  "dict_get kvs k = (case map_of kvs (PStr k) of None \<Rightarrow> PNone | Some v \<Rightarrow> v)"

text \<open>A dictionary the code builds with literal string keys.\<close>

type_synonym info = "(string \<times> pyval) list"

section \<open>Text of a value, and integers from text\<close>

text \<open>
  \<open>repr\<close> of a string: single quotes, unless the text has a single quote and no double
  quote; the quote character and the backslash get a backslash, tab, line feed and
  carriage return their letter, every other control character and DEL the form \<open>\xNN\<close>.
\<close>

definition hex2 :: "nat \<Rightarrow> string" where
  "hex2 n = [''0123456789abcdef'' ! (n div 16), ''0123456789abcdef'' ! (n mod 16)]"

definition repr_char :: "char \<Rightarrow> char \<Rightarrow> string" where
  "repr_char q c =
     (let n = (of_char c :: nat) in
      if c = q \<or> n = 92 then [CHR 0x5C, c]
      else if n = 9 then [CHR 0x5C, CHR ''t'']
      else if n = 10 then [CHR 0x5C, CHR ''n'']
      else if n = 13 then [CHR 0x5C, CHR ''r'']
      else if n < 32 \<or> n = 127 then [CHR 0x5C, CHR ''x''] @ hex2 n
      else [c])"

definition repr_str :: "string \<Rightarrow> string" where
  "repr_str s =
     (let q = (if CHR 0x27 \<in> set s \<and> CHR 0x22 \<notin> set s
               then CHR 0x22 else CHR 0x27)
      in [q] @ concat (map (repr_char q) s) @ [q])"

text \<open>\<open>join sep xs\<close> is \<open>sep.join(xs)\<close>.\<close>

fun join :: "string \<Rightarrow> string list \<Rightarrow> string" where
  "join sep [] = []"
| "join sep [x] = x"
| "join sep (x # y # xs) = x @ sep @ join sep (y # xs)"

text \<open>\<open>repr()\<close> and \<open>str()\<close> of a value; they differ on strings and on the values of other
  types only.\<close>

primrec py_repr :: "pyval \<Rightarrow> string" where
  "py_repr PNone = ''None''"
| "py_repr (PBool b) = (if b then ''True'' else ''False'')"
| "py_repr (PInt i) = py_str_int i"
| "py_repr (PStr s) = repr_str s"
| "py_repr (PList xs) = ''['' @ join '', '' (map py_repr xs) @ '']''"
| "py_repr (PDict kvs) =
     ''{'' @ join '', '' (map (\<lambda>kv. fst kv @ '': '' @ snd kv) (map (map_prod py_repr py_repr) kvs)) @ ''}''"
| "py_repr (POther t s r) = r"

definition py_str :: "pyval \<Rightarrow> string" where
  "py_str v = (case v of PStr s \<Rightarrow> s | POther t s r \<Rightarrow> s | _ \<Rightarrow> py_repr v)"

text \<open>
  \<open>int(s)\<close> of a text: white space around it is dropped, a sign may lead, and the digits
  may be grouped by single underscores; \<open>None\<close> is \<open>ValueError\<close>.  (The digits beyond ASCII
  that Python also accepts, and the limit recent versions put on the number of digits,
  are left out.)
\<close>

fun digit_run :: "string \<Rightarrow> bool" where
  "digit_run [] = False"
| "digit_run [c] = is_digit c"
| "digit_run (c # d # s) = (is_digit c \<and> (if d = CHR ''_'' then digit_run s else digit_run (d # s)))"

definition py_int :: "string \<Rightarrow> int option" where
  "py_int s =
     (let t = py_strip s;
          neg = (take 1 t = ''-'');
          body = (if take 1 t = ''-'' \<or> take 1 t = ''+'' then drop 1 t else t)
      in if digit_run body
         then Some ((if neg then - 1 else 1) * int (nat_of_digits (filter (\<lambda>c. c \<noteq> CHR ''_'') body)))
         else None)"

text \<open>\<open>py_iter v\<close> is what \<open>for x in v\<close> runs over: the items of a list, the characters of
  a string, the keys of a dictionary; \<open>None\<close> where \<open>v\<close> cannot be iterated (\<open>TypeError\<close>).\<close>

definition py_iter :: "pyval \<Rightarrow> pyval list option" where
  "py_iter v =
     (case v of
        PList xs \<Rightarrow> Some xs
      | PStr s \<Rightarrow> Some (map (\<lambda>c. PStr [c]) s)
      | PDict kvs \<Rightarrow> Some (map fst kvs)
      | _ \<Rightarrow> None)"

text \<open>\<open>dict_set m k v\<close> is \<open>m[k] = v\<close>: a key already there keeps its place.\<close>

definition dict_set :: "('k \<times> 'v) list \<Rightarrow> 'k \<Rightarrow> 'v \<Rightarrow> ('k \<times> 'v) list" where
  "dict_set m k v =
     (if k \<in> fst ` set m then map (\<lambda>kv. if fst kv = k then (k, v) else kv) m else m @ [(k, v)])"

section \<open>Paths\<close>

text \<open>
  A path is the tuple \<open>pathlib\<close> calls \<open>parts\<close>: for an absolute path the anchor
  (\<open>/\<close>, or \<open>//\<close> when the text starts with exactly two slashes) followed by the
  components.  \<open>path_parts\<close> is \<open>PurePosixPath(s).parts\<close>: empty components and \<open>.\<close> are
  dropped, \<open>..\<close> is kept.  \<open>path_join base s\<close> is \<open>base / s\<close>: an absolute \<open>s\<close> replaces
  the base.
\<close>

type_synonym path = "string list"

definition path_parts :: "string \<Rightarrow> path" where
  "path_parts s =
     (let comps = filter (\<lambda>c. c \<noteq> [] \<and> c \<noteq> ''.'') (py_split CHR ''/'' s) in
      if take 1 s = ''/''
      then (if take 2 s = ''//'' \<and> take 3 s \<noteq> ''///'' then ''//'' else ''/'') # comps
      else comps)"

definition path_join :: "path \<Rightarrow> string \<Rightarrow> path" where
  "path_join base s = (if take 1 s = ''/'' then path_parts s else base @ path_parts s)"

text \<open>\<open>parents p\<close> is \<open>p.parents\<close>: the proper ancestors, nearest first, down to the
  anchor of an absolute path or to the empty path of a relative one.\<close>

definition is_anchored :: "path \<Rightarrow> bool" where
  "is_anchored p = (take 1 p = [''/''] \<or> take 1 p = [''//''])"

definition parents :: "path \<Rightarrow> path list" where
  "parents p = map (\<lambda>n. take n p) (rev [(if is_anchored p then 1 else 0) ..< length p])"

text \<open>
  \<open>Path.resolve()\<close> asks the operating system; it is a field of the world below.  On a
  tree without symbolic links it is the lexical normalisation \<open>resolve_no_symlinks\<close> of an
  absolute path: \<open>..\<close> drops the last component and stays at the root.
\<close>

definition resolve_no_symlinks :: "path \<Rightarrow> path" where
  "resolve_no_symlinks p =
     foldl (\<lambda>acc c. if c = ''..'' then (if length acc \<le> 1 then acc else butlast acc) else acc @ [c])
       [''/''] (drop 1 p)"

lemma parents_strict_prefix: "q \<in> set (parents p) \<Longrightarrow> strict_prefix q p"
proof -
  assume "q \<in> set (parents p)"
  then obtain n where n: "n < length p" and q: "q = take n p"
    by (auto simp: parents_def)
  have "prefix q p" unfolding q by (rule take_is_prefix)
  moreover have "q \<noteq> p" using n q by auto
  ultimately show ?thesis by (simp add: strict_prefix_def)
qed

lemma parents_complete:
  assumes "strict_prefix q p" and "q \<noteq> []"
  shows "q \<in> set (parents p)"
proof -
  from assms(1) have pq: "prefix q p" and ne: "q \<noteq> p" by (auto simp: strict_prefix_def)
  from pq have q: "q = take (length q) p" by (auto simp: prefix_def)
  from pq ne have len: "length q < length p"
    by (metis prefix_length_le le_neq_implies_less q take_all_iff)
  from assms(2) have "1 \<le> length q" by (cases q) auto
  then have "length q \<in> set (rev [(if is_anchored p then 1 else 0) ..< length p])"
    using len by auto
  then have "take (length q) p \<in> set (parents p)"
    unfolding parents_def by (metis (no_types, lifting) image_eqI list.set_map)
  with q show ?thesis by simp
qed

section \<open>The world outside the process\<close>

text \<open>
  Everything the code asks the operating system is a field of \<open>world\<close>:
  \<^item> \<open>VULHUB_PATH\<close>: the module constant, the resolved scan root;
  \<^item> \<open>real_path\<close>: \<open>Path.resolve()\<close>, which returns the resolved path or raises
    (\<open>ValueError\<close> for a text with a NUL character in it, \<open>RuntimeError\<close> for a loop of
    symbolic links); \<open>path_exists\<close>: \<open>Path.exists()\<close>;
  \<^item> \<open>run args cwd\<close>: what \<open>_run\<close> returns for \<open>subprocess.run(args, cwd=cwd)\<close>, that is
    (return code is 0, stdout, stderr), or (False, empty text, the exception's text) when
    the call raises;
  \<^item> \<open>popen args cwd\<close>: the lines a \<open>subprocess.Popen\<close> child writes to its output before
    it exits, or \<open>None\<close> when the program is not found;
  \<^item> \<open>read_text p\<close>: the text of a file, or \<open>None\<close> when reading it raises;
  \<^item> \<open>json_loads\<close>: the library's \<open>json.loads\<close>, \<open>None\<close> where it raises (the decoder is
    not modelled, a world supplies it);
  \<^item> \<open>urllib_imported\<close>: whether the import of \<open>urlopen\<close> at the top of \<open>operations.py\<close>
    succeeded;
  \<^item> \<open>urlopen url\<close>: what \<open>urllib.request.urlopen\<close> does for a GET of \<open>url\<close>;
  \<^item> \<open>round_cost\<close>: the milliseconds one polling round of \<open>wait_ready\<close> spends in its
    subprocess and its probes.
\<close>

text \<open>
  \<open>urlopen\<close> returns a response object or raises.  \<open>urlopen_for\<close> is what the library does
  with the server's answer: its \<open>HTTPErrorProcessor\<close> hands every status outside 200..299
  to the error handlers, and the default handler raises \<open>HTTPError\<close>; a connection that is
  refused or times out raises \<open>URLError\<close>.  (Redirects are followed first: the status meant
  is the one of the last answer.)
\<close>

datatype urlopen_result = Response nat | HTTPError nat | URLError | OtherException

datatype server_reply = NoConnection | Status nat

definition urlopen_for :: "server_reply \<Rightarrow> urlopen_result" where
  "urlopen_for r =
     (case r of
        NoConnection \<Rightarrow> URLError
      | Status c \<Rightarrow> if 200 \<le> c \<and> c < 300 then Response c else HTTPError c)"

datatype error =
  FileNotFoundError | ValueError | RuntimeError | AttributeError | TypeError | KeyError | OSError
  | YAMLError

record world =
  VULHUB_PATH :: path
  real_path :: "path \<Rightarrow> error + path"
  path_exists :: "path \<Rightarrow> bool"
  run :: "string list \<Rightarrow> path option \<Rightarrow> bool \<times> string \<times> string"
  popen :: "string list \<Rightarrow> path \<Rightarrow> string list option"
  read_text :: "path \<Rightarrow> string option"
  json_loads :: "string \<Rightarrow> pyval option"
  urllib_imported :: bool
  urlopen :: "string \<Rightarrow> urlopen_result"
  round_cost :: nat

text \<open>A subprocess the code started: its arguments and working directory.\<close>

type_synonym call = "string list \<times> path option"

definition utf8 :: "nat list \<Rightarrow> string" where
  "utf8 bs = map char_of bs"

text \<open>The fixed messages of \<open>operations.py\<close>, as UTF-8: "environment not found: ",
  "start failed", "stop failed".\<close>

definition msg_env_not_found :: string where
  "msg_env_not_found = utf8 [230, 137, 190, 228, 184, 141, 229, 136, 176, 231, 146, 176,
     229, 162, 131, 239, 188, 154]"

definition msg_start_failed :: string where
  "msg_start_failed = utf8 [229, 149, 159, 229, 139, 149, 229, 164, 177, 230, 149, 151]"

definition msg_stop_failed :: string where
  "msg_stop_failed = utf8 [229, 129, 156, 230, 173, 162, 229, 164, 177, 230, 149, 151]"

section \<open>Resolving an identifier\<close>

text \<open>
  \<open>operations.VulhubOperations._env_dir\<close>.  The call of \<open>resolve()\<close> stands before the
  \<open>try\<close>: what it raises leaves the function.  \<open>Inr None\<close> is the return of \<open>None\<close>.
\<close>

definition env_dir :: "world \<Rightarrow> string \<Rightarrow> error + path option" where
  "env_dir w name =
     (if name = [] then Inr None
      else
        (case real_path w (path_join (VULHUB_PATH w) name) of
           Inl e \<Rightarrow> Inl e
         | Inr p \<Rightarrow>
             if VULHUB_PATH w \<notin> set (parents p) \<and> p \<noteq> VULHUB_PATH w then Inr None
             else if \<not> path_exists w p \<or> \<not> path_exists w (p @ [''docker-compose.yml''])
             then Inr None
             else Inr (Some p)))"

text \<open>\<open>app._get_env_dir_by_name\<close>: the containment check alone; it raises where
  \<open>_env_dir\<close> returns \<open>None\<close>.\<close>

definition get_env_dir_by_name :: "world \<Rightarrow> string \<Rightarrow> error + path" where
  "get_env_dir_by_name w name =
     (case real_path w (path_join (VULHUB_PATH w) name) of
        Inl e \<Rightarrow> Inl e
      | Inr p \<Rightarrow>
          if VULHUB_PATH w \<notin> set (parents p) \<and> p \<noteq> VULHUB_PATH w then Inl FileNotFoundError
          else Inr p)"

section \<open>Lifecycle operations\<close>

record VulhubOperations =
  compose_cmd :: "string list"

definition detect_compose_cmd :: "world \<Rightarrow> string list" where
  "detect_compose_cmd w =
     (if fst (run w [''docker'', ''compose'', ''version''] None) then [''docker'', ''compose'']
      else if fst (run w [''docker-compose'', ''version''] None) then [''docker-compose'']
      else [''docker'', ''compose''])"

definition cmd :: "VulhubOperations \<Rightarrow> string list \<Rightarrow> string list" where
  "cmd self args = compose_cmd self @ args"

text \<open>
  \<open>start\<close> and \<open>stop\<close> return the pair of the source (\<open>Inr\<close>) or raise what \<open>_env_dir\<close>
  raised (\<open>Inl\<close>); beside that stand the subprocesses they started, in order.
\<close>

type_synonym outcome = "(error + bool \<times> info) \<times> call list"

definition start :: "world \<Rightarrow> VulhubOperations \<Rightarrow> string \<Rightarrow> outcome" where
  "start w self name =
     (case env_dir w name of
        Inl e \<Rightarrow> (Inl e, [])
      | Inr None \<Rightarrow> (Inr (False, [(''error'', PStr (msg_env_not_found @ name))]), [])
      | Inr (Some d) \<Rightarrow>
          (case run w (cmd self [''up'', ''-d'']) (Some d) of
             (ok, out, err) \<Rightarrow>
               if \<not> ok then
                 (Inr (False,
                   (''error'', PStr (py_or [py_strip err, py_strip out] msg_start_failed))
                   # (if py_contains ''address already in use'' (py_lower err)
                          \<or> py_contains ''port is already allocated'' (py_lower err)
                       then [(''port_conflict'', PBool True)] else [])),
                  [(cmd self [''up'', ''-d''], Some d)])
               else (Inr (True, []), [(cmd self [''up'', ''-d''], Some d)])))"

definition stop :: "world \<Rightarrow> VulhubOperations \<Rightarrow> string \<Rightarrow> outcome" where
  "stop w self name =
     (case env_dir w name of
        Inl e \<Rightarrow> (Inl e, [])
      | Inr None \<Rightarrow> (Inr (False, [(''error'', PStr (msg_env_not_found @ name))]), [])
      | Inr (Some d) \<Rightarrow>
          (case run w (cmd self [''down'']) (Some d) of
             (ok, out, err) \<Rightarrow>
               if \<not> ok then
                 (Inr (False, [(''error'', PStr (py_or [py_strip err, py_strip out] msg_stop_failed))]),
                  [(cmd self [''down''], Some d)])
               else (Inr (True, []), [(cmd self [''down''], Some d)])))"

section \<open>Waiting for a service\<close>

text \<open>
  \<open>_parse_ports_string\<close>: in each comma-separated part, the leftmost match of
  \<open>:(\d+)->\d+/(tcp|udp)\<close>.  A match starts at a colon; the digits after it are all
  taken, since what follows them must be \<open>->\<close>, and likewise before the slash.
\<close>

definition match_after_colon :: "string \<Rightarrow> nat option" where
  "match_after_colon s =
     (let d1 = takeWhile is_digit s; r1 = dropWhile is_digit s in
      if d1 \<noteq> [] \<and> prefix ''->'' r1 then
        (let d2 = takeWhile is_digit (drop 2 r1); r3 = dropWhile is_digit (drop 2 r1) in
         if d2 \<noteq> [] \<and> (prefix ''/tcp'' r3 \<or> prefix ''/udp'' r3) then Some (nat_of_digits d1)
         else None)
      else None)"

fun search_port :: "string \<Rightarrow> nat option" where
  "search_port [] = None"
| "search_port (c # s) =
     (if c = CHR '':'' then
        (case match_after_colon s of Some n \<Rightarrow> Some n | None \<Rightarrow> search_port s)
      else search_port s)"

definition parse_ports_string :: "string \<Rightarrow> nat list" where
  "parse_ports_string s =
     concat (map (\<lambda>part. case search_port part of None \<Rightarrow> [] | Some n \<Rightarrow> [n])
                 (py_split CHR '','' s))"

text \<open>
  \<open>_pick_host_ports\<close>.  Everything after the subprocess runs inside one \<open>try\<close>: a line
  that is no JSON raises before any port is collected; an entry that is no dictionary, or
  whose \<open>Ports\<close> is true and no string, raises in the loop and leaves the ports collected
  so far.
\<close>

definition add_new :: "nat list \<Rightarrow> nat list \<Rightarrow> nat list" where
  "add_new hps ports = foldl (\<lambda>ps hp. if hp \<in> set ps then ps else ps @ [hp]) ports hps"

fun collect_ports :: "pyval list \<Rightarrow> nat list \<Rightarrow> nat list" where
  "collect_ports [] ports = ports"
| "collect_ports (obj # objs) ports =
     (case obj of
        PDict kvs \<Rightarrow>
          (if \<not> truthy (dict_get kvs ''Ports'') then collect_ports objs ports
           else (case dict_get kvs ''Ports'' of
                   PStr s \<Rightarrow> collect_ports objs (add_new (parse_ports_string s) ports)
                 | _ \<Rightarrow> ports))
      | _ \<Rightarrow> ports)"

definition pick_host_ports :: "world \<Rightarrow> VulhubOperations \<Rightarrow> path \<Rightarrow> nat list" where
  "pick_host_ports w self d =
     (case run w (cmd self [''ps'', ''--format'', ''json'']) (Some d) of
        (ok, out, err) \<Rightarrow>
          if ok then
            (case those (map (json_loads w) (filter (\<lambda>x. py_strip x \<noteq> []) (py_splitlines out))) of
               None \<Rightarrow> []
             | Some objs \<Rightarrow> collect_ports objs [])
          else [])"

text \<open>The two probes of one round, \<open>http\<close> then \<open>https\<close>: true when \<open>urlopen\<close> returned a
  response for one of them; every exception is swallowed.\<close>

definition probe :: "world \<Rightarrow> nat \<Rightarrow> bool" where
  "probe w port =
     list_ex (\<lambda>scheme. case urlopen w (scheme @ ''://127.0.0.1:'' @ digits_of port) of
                          Response status \<Rightarrow> True
                        | _ \<Rightarrow> False)
       [''http'', ''https'']"

text \<open>
  The loop of \<open>wait_ready\<close>.  Time is the clock reading in milliseconds and \<open>W t\<close> the
  world at time \<open>t\<close>.  A round that starts at \<open>now\<close> sees \<open>W now\<close>, spends its \<open>round_cost\<close>
  and then sleeps for a second.  \<open>chosen_port\<close> is the one of the source; \<open>calls\<close>
  collects the subprocesses started.
\<close>

definition not_ready :: "nat option \<Rightarrow> info" where
  "not_ready chosen_port =
     (case chosen_port of
        None \<Rightarrow> [(''ready'', PBool False)]
      | Some p \<Rightarrow> if p \<noteq> 0 then [(''ready'', PBool False), (''port'', PInt (int p))]
                  else [(''ready'', PBool False)])"

function wait_loop ::
  "(nat \<Rightarrow> world) \<Rightarrow> VulhubOperations \<Rightarrow> path \<Rightarrow> nat \<Rightarrow> nat \<Rightarrow> nat option \<Rightarrow> call list
     \<Rightarrow> (bool \<times> info) \<times> call list" where
  "wait_loop W self d deadline now chosen_port calls =
     (if now < deadline then
        (case pick_host_ports (W now) self d of
           [] \<Rightarrow>
             wait_loop W self d deadline (now + round_cost (W now) + 1000) chosen_port
               (calls @ [(cmd self [''ps'', ''--format'', ''json''], Some d)])
         | p # ps \<Rightarrow>
             if probe (W now) p
             then ((True, [(''ready'', PBool True), (''port'', PInt (int p))]),
                   calls @ [(cmd self [''ps'', ''--format'', ''json''], Some d)])
             else wait_loop W self d deadline (now + round_cost (W now) + 1000) (Some p)
                    (calls @ [(cmd self [''ps'', ''--format'', ''json''], Some d)]))
      else ((True, not_ready chosen_port), calls))"
  by pat_completeness auto
termination
  by (relation "measure (\<lambda>(W, self, d, deadline, now, chosen_port, calls). deadline - now)") auto

declare wait_loop.simps [simp del]

text \<open>\<open>wait_ready\<close>, called at time \<open>t0\<close>.\<close>

definition wait_ready ::
  "(nat \<Rightarrow> world) \<Rightarrow> nat \<Rightarrow> VulhubOperations \<Rightarrow> string \<Rightarrow> int \<Rightarrow> outcome" where
  "wait_ready W t0 self name timeout =
     (if \<not> urllib_imported (W t0) then (Inr (True, [(''ready'', PBool False)]), [])
      else
        (case env_dir (W t0) name of
           Inl e \<Rightarrow> (Inl e, [])
         | Inr None \<Rightarrow> (Inr (True, [(''ready'', PBool False)]), [])
         | Inr (Some d) \<Rightarrow>
             (case wait_loop W self d (t0 + 1000 * nat (max 1 timeout)) t0 None [] of
                (r, calls) \<Rightarrow> (Inr r, calls))))"

section \<open>Pulling images\<close>




section \<open>Checking images\<close>






section \<open>The cached snapshot and the start and stop requests\<close>

text \<open>One entry of \<open>_env_cache["data"]\<close>: the dictionary \<open>_scan_environments_fs\<close> builds,
  a field per key.\<close>

record env =
  env_name :: string
  env_category :: string
  env_cve :: string
  env_status :: string
  env_ports :: "(pyval \<times> string) list"
  env_services :: "string list"
  env_has_exploit :: bool
  env_has_images :: bool
  env_has_readme :: bool
  env_has_readme_zh :: bool
  env_has_docker_images :: bool

text \<open>The loop of \<open>api_start\<close> and \<open>api_stop\<close>: the first entry with that name gets the
  status, then \<open>break\<close>.\<close>

fun set_status :: "string \<Rightarrow> string \<Rightarrow> env list \<Rightarrow> env list" where
  "set_status name st [] = []"
| "set_status name st (e # es) =
     (if env_name e = name then e\<lparr>env_status := st\<rparr> # es else e # set_status name st es)"

text \<open>\<open>_env_cache["data"]\<close> is \<open>None\<close> or a list; \<open>None\<close> and the empty list are false.\<close>

definition cache_truthy :: "env list option \<Rightarrow> bool" where
  "cache_truthy c = (case c of None \<Rightarrow> False | Some es \<Rightarrow> es \<noteq> [])"

text \<open>\<open>api_start\<close> and \<open>api_stop\<close>: the response dictionary (or the exception that
  leaves the handler), the cache afterwards, the subprocesses started.\<close>

definition api_start ::
  "world \<Rightarrow> VulhubOperations \<Rightarrow> env list option \<Rightarrow> string
     \<Rightarrow> (error + info) \<times> env list option \<times> call list" where
  "api_start w ops cache name =
     (case start w ops name of
        (Inl e, calls) \<Rightarrow> (Inl e, cache, calls)
      | (Inr (ok, info), calls) \<Rightarrow>
          (Inr ((''success'', PBool ok) # info),
           (if ok \<and> cache_truthy cache then map_option (set_status name ''running'') cache else cache),
           calls))"

definition api_stop ::
  "world \<Rightarrow> VulhubOperations \<Rightarrow> env list option \<Rightarrow> string
     \<Rightarrow> (error + info) \<times> env list option \<times> call list" where
  "api_stop w ops cache name =
     (case stop w ops name of
        (Inl e, calls) \<Rightarrow> (Inl e, cache, calls)
      | (Inr (ok, info), calls) \<Rightarrow>
          (Inr ((''success'', PBool ok) # info),
           (if ok \<and> cache_truthy cache then map_option (set_status name ''stopped'') cache else cache),
           calls))"

text \<open>Whether an operation returned, with \<open>True\<close> as the first component.\<close>

definition succeeded :: "outcome \<Rightarrow> bool" where
  "succeeded r = (case fst r of Inl e \<Rightarrow> False | Inr (ok, info) \<Rightarrow> ok)"

lemma set_status_length: "length (set_status name st es) = length es"
  by (induction es) auto

lemma set_status_names: "map env_name (set_status name st es) = map env_name es"
  by (induction es) auto

lemma set_status_absent: "name \<notin> env_name ` set es \<Longrightarrow> set_status name st es = es"
  by (induction es) auto

lemma set_status_distinct:
  "distinct (map env_name es) \<Longrightarrow>
     set_status name st es = map (\<lambda>e. if env_name e = name then e\<lparr>env_status := st\<rparr> else e) es"
proof (induction es)
  case Nil
  show ?case by simp
next
  case (Cons e es)
  show ?case
  proof (cases "env_name e = name")
    case True
    with Cons.prems have "name \<notin> env_name ` set es" by auto
    then have "map (\<lambda>e. if env_name e = name then e\<lparr>env_status := st\<rparr> else e) es = es"
      by (induction es) auto
    with True show ?thesis by simp
  next
    case False
    with Cons show ?thesis by simp
  qed
qed

section \<open>A concrete world\<close>

text \<open>
  A scan root \<open>/srv/vulhub\<close> without symbolic links, holding two environments and a
  directory \<open>docs\<close> with no manifest.  \<open>docker compose up -d\<close> succeeds in the first
  environment and fails in the second because the port is taken; every other command
  succeeds silently; \<open>ps\<close> reports one container that publishes host port 8080.  The
  server behind it answers every request with status 404.
\<close>

definition demo_root :: path where
  "demo_root = [''/'', ''srv'', ''vulhub'']"

definition demo_paths :: "path list" where
  "demo_paths =
     [[''/''], [''/'', ''etc''], [''/'', ''srv''], demo_root,
      demo_root @ [''docs''],
      demo_root @ [''nginx''],
      demo_root @ [''nginx'', ''CVE-2017-7529''],
      demo_root @ [''nginx'', ''CVE-2017-7529'', ''docker-compose.yml''],
      demo_root @ [''httpd''],
      demo_root @ [''httpd'', ''CVE-2021-41773''],
      demo_root @ [''httpd'', ''CVE-2021-41773'', ''docker-compose.yml'']]"

text \<open>One line of \<open>docker compose ps --format json\<close>: an object whose \<open>Ports\<close> is
  \<open>0.0.0.0:8080->80/tcp\<close>.\<close>

definition demo_ps_line :: string where
  "demo_ps_line =
     ''{'' @ [CHR 0x22] @ ''Ports'' @ [CHR 0x22] @ '': ''
     @ [CHR 0x22] @ ''0.0.0.0:8080->80/tcp'' @ [CHR 0x22] @ ''}''"

text \<open>What the daemon writes to stderr when the port is taken, line break included.\<close>

definition demo_stderr :: string where
  "demo_stderr =
     ''Error response from daemon: Bind for 0.0.0.0:8080 failed: port is already allocated''
     @ [CHR 0x0A]"

definition demo_run :: "string list \<Rightarrow> path option \<Rightarrow> bool \<times> string \<times> string" where
  "demo_run args cwd =
     (if args = [''docker'', ''compose'', ''up'', ''-d'']
         \<and> cwd = Some (demo_root @ [''httpd'', ''CVE-2021-41773''])
      then (False, [], demo_stderr)
      else if args = [''docker'', ''compose'', ''ps'', ''--format'', ''json'']
      then (True, demo_ps_line @ [CHR 0x0A], [])
      else (True, [], []))"

text \<open>Resolution on this tree: lexical, and \<open>ValueError\<close> for a NUL character.\<close>

definition demo_real_path :: "path \<Rightarrow> error + path" where
  "demo_real_path p =
     (if list_ex (\<lambda>c. CHR 0x00 \<in> set c) p then Inl ValueError
      else Inr (resolve_no_symlinks p))"

definition demo_world :: world where
  "demo_world =
     \<lparr>VULHUB_PATH = demo_root, real_path = demo_real_path,
      path_exists = (\<lambda>p. p \<in> set demo_paths), run = demo_run,
      popen = (\<lambda>args cwd. Some [''Pulling web'', ''done'']),
      read_text = (\<lambda>p. None),
      json_loads = (\<lambda>s. if s = demo_ps_line
                         then Some (PDict [(PStr ''Ports'', PStr ''0.0.0.0:8080->80/tcp'')])
                         else None),
      urllib_imported = True,
      urlopen = (\<lambda>url. urlopen_for (Status 404)), round_cost = 0\<rparr>"

definition demo_ops :: VulhubOperations where
  "demo_ops = \<lparr>compose_cmd = [''docker'', ''compose'']\<rparr>"

definition demo_env :: "string \<Rightarrow> string \<Rightarrow> string \<Rightarrow> env" where
  "demo_env name category cve =
     \<lparr>env_name = name, env_category = category, env_cve = cve, env_status = ''unknown'',
      env_ports = [], env_services = [], env_has_exploit = False, env_has_images = False,
      env_has_readme = False, env_has_readme_zh = False, env_has_docker_images = False\<rparr>"

definition demo_cache :: "env list" where
  "demo_cache =
     [demo_env ''httpd/CVE-2021-41773'' ''httpd'' ''CVE-2021-41773'',
      demo_env ''nginx/CVE-2017-7529'' ''nginx'' ''CVE-2017-7529'']"

section \<open>Containment of resolved identifiers\<close>

lemma not_contained_iff:
  "(root \<notin> set (parents p) \<and> p \<noteq> root) \<Longrightarrow> root = [] \<or> \<not> prefix root p"
proof (rule ccontr)
  assume a: "root \<notin> set (parents p) \<and> p \<noteq> root" and "\<not> (root = [] \<or> \<not> prefix root p)"
  then have "strict_prefix root p" "root \<noteq> []" by (auto simp: strict_prefix_def)
  then have "root \<in> set (parents p)" by (rule parents_complete)
  with a show False by simp
qed

lemma contained_prefix: "\<not> (root \<notin> set (parents p) \<and> p \<noteq> root) \<Longrightarrow> prefix root p"
  using parents_strict_prefix [of root p] by (auto simp: strict_prefix_def)



text \<open>With a scan root that is an absolute path (so not the empty path) the two checks
  are exact: an identifier is accepted if and only if its path resolves to the root or
  below it (and, for \<open>_env_dir\<close>, is non-empty, exists and holds a manifest).\<close>

lemma env_dir_iff:
  "VULHUB_PATH w \<noteq> [] \<Longrightarrow>
     env_dir w name = Inr (Some p) \<longleftrightarrow>
       (name \<noteq> [] \<and> real_path w (path_join (VULHUB_PATH w) name) = Inr p \<and> prefix (VULHUB_PATH w) p
        \<and> path_exists w p \<and> path_exists w (p @ [''docker-compose.yml'']))"
  using not_contained_iff [of "VULHUB_PATH w" p]
  by (auto simp: env_dir_def split: if_splits sum.splits intro: contained_prefix)

lemma get_env_dir_by_name_iff:
  "VULHUB_PATH w \<noteq> [] \<Longrightarrow>
     get_env_dir_by_name w name = Inr p \<longleftrightarrow>
       (real_path w (path_join (VULHUB_PATH w) name) = Inr p \<and> prefix (VULHUB_PATH w) p)"
  using not_contained_iff [of "VULHUB_PATH w" p]
  by (auto simp: get_env_dir_by_name_def split: if_splits sum.splits intro: contained_prefix)




lemma demo_nginx_dir:
  "env_dir demo_world ''nginx/CVE-2017-7529'' = Inr (Some (demo_root @ [''nginx'', ''CVE-2017-7529'']))"
  by code_simp




section \<open>What a failed start reports\<close>














section \<open>Start and stop against the cached snapshot\<close>

text \<open>
  C8.  With unique identifiers in the cached snapshot, a successful \<open>start\<close> turns the
  status of the record with that identifier into \<open>running\<close>, a successful \<open>stop\<close> into
  \<open>stopped\<close>, and every other record, and every other field, stays as it was; the new
  snapshot is computed from the old one alone, with no scan.  A \<open>start\<close> or \<open>stop\<close> that
  fails (returns \<open>False\<close>, or raises) leaves the snapshot as it was, and so does either
  request while there is no snapshot.
\<close>

theorem start_stop_update_one_status:
  "distinct (map env_name es) \<Longrightarrow>
     fst (snd (api_start w ops (Some es) name)) =
       Some (if succeeded (start w ops name)
             then map (\<lambda>e. if env_name e = name then e\<lparr>env_status := ''running''\<rparr> else e) es
             else es)
     \<and> fst (snd (api_stop w ops (Some es) name)) =
       Some (if succeeded (stop w ops name)
             then map (\<lambda>e. if env_name e = name then e\<lparr>env_status := ''stopped''\<rparr> else e) es
             else es)
     \<and> fst (snd (api_start w ops None name)) = None
     \<and> fst (snd (api_stop w ops None name)) = None"
proof -
  assume d: "distinct (map env_name es)"
  have a: "fst (snd (api_start w ops (Some es) name)) =
       Some (if succeeded (start w ops name)
             then map (\<lambda>e. if env_name e = name then e\<lparr>env_status := ''running''\<rparr> else e) es
             else es)"
    using set_status_distinct [OF d, of name "''running''"]
    by (cases es) (auto simp: api_start_def cache_truthy_def succeeded_def split: prod.splits sum.splits)
  have b: "fst (snd (api_stop w ops (Some es) name)) =
       Some (if succeeded (stop w ops name)
             then map (\<lambda>e. if env_name e = name then e\<lparr>env_status := ''stopped''\<rparr> else e) es
             else es)"
    using set_status_distinct [OF d, of name "''stopped''"]
    by (cases es) (auto simp: api_stop_def cache_truthy_def succeeded_def split: prod.splits sum.splits)
  have c: "fst (snd (api_start w ops None name)) = None"
    by (simp add: api_start_def cache_truthy_def split: prod.splits sum.splits)
  have e: "fst (snd (api_stop w ops None name)) = None"
    by (simp add: api_stop_def cache_truthy_def split: prod.splits sum.splits)
  from a b c e show ?thesis by blast
qed

lemma demo_cache_distinct: "distinct (map env_name demo_cache)"
  by code_simp

lemma demo_start_nginx_ok: "succeeded (start demo_world demo_ops ''nginx/CVE-2017-7529'')"
  by code_simp

lemma demo_stop_nginx_ok: "succeeded (stop demo_world demo_ops ''nginx/CVE-2017-7529'')"
  by code_simp

theorem start_stop_update_one_status_witness:
  "distinct (map env_name demo_cache)
   \<and> fst (snd (api_start demo_world demo_ops (Some demo_cache) ''nginx/CVE-2017-7529'')) =
       Some [demo_env ''httpd/CVE-2021-41773'' ''httpd'' ''CVE-2021-41773'',
             (demo_env ''nginx/CVE-2017-7529'' ''nginx'' ''CVE-2017-7529'')\<lparr>env_status := ''running''\<rparr>]
   \<and> fst (snd (api_stop demo_world demo_ops (Some demo_cache) ''nginx/CVE-2017-7529'')) =
       Some [demo_env ''httpd/CVE-2021-41773'' ''httpd'' ''CVE-2021-41773'',
             (demo_env ''nginx/CVE-2017-7529'' ''nginx'' ''CVE-2017-7529'')\<lparr>env_status := ''stopped''\<rparr>]"
  using start_stop_update_one_status [OF demo_cache_distinct, of demo_world demo_ops "''nginx/CVE-2017-7529''"]
    demo_cache_distinct demo_start_nginx_ok demo_stop_nginx_ok
  by (simp add: demo_cache_def demo_env_def)

text \<open>A failed start changes nothing: the second environment's port is taken.\<close>

lemma demo_failed_start_keeps_cache:
  "fst (snd (api_start demo_world demo_ops (Some demo_cache) ''httpd/CVE-2021-41773'')) = Some demo_cache"
  by code_simp

text \<open>Without unique identifiers only the first record of that name is touched, as the
  \<open>break\<close> of the loop says.\<close>

lemma set_status_first_only:
  "set_status name st (xs @ e # ys) =
     (if name \<in> env_name ` set xs then set_status name st xs @ e # ys
      else if env_name e = name then xs @ e\<lparr>env_status := st\<rparr> # ys
      else xs @ e # set_status name st ys)"
  by (induction xs) auto

section \<open>The result of waiting\<close>

lemma wait_loop_success_flag: "fst (fst (wait_loop W self d deadline now chosen_port calls)) = True"
proof (induction W self d deadline now chosen_port calls rule: wait_loop.induct)
  case (1 W self d deadline now chosen_port calls)
  show ?case
    by (subst wait_loop.simps) (use 1 in \<open>auto split: list.splits\<close>)
qed

text \<open>Whenever \<open>wait_ready\<close> returns, the first component is \<open>True\<close>; and it returns
  unless the resolution of the identifier raises (the loop ends because every round moves
  the clock by a second at least).  Only \<open>ready\<close> tells the outcomes apart: an unresolved
  identifier and a missing HTTP client both give \<open>ready = False\<close> and no port.\<close>

lemma wait_ready_returns_true:
  "\<not> urllib_imported (W t0) \<or> (\<forall>e. env_dir (W t0) name \<noteq> Inl e) \<Longrightarrow>
     \<exists>info calls. wait_ready W t0 self name timeout = (Inr (True, info), calls)"
proof -
  assume a: "\<not> urllib_imported (W t0) \<or> (\<forall>e. env_dir (W t0) name \<noteq> Inl e)"
  show ?thesis
  proof (cases "urllib_imported (W t0)")
    case False
    then show ?thesis by (simp add: wait_ready_def)
  next
    case True
    with a have n: "\<forall>e. env_dir (W t0) name \<noteq> Inl e" by simp
    show ?thesis
    proof (cases "env_dir (W t0) name")
      case (Inl e)
      with n show ?thesis by simp
    next
      case (Inr r)
      show ?thesis
      proof (cases r)
        case None
        with Inr True show ?thesis by (simp add: wait_ready_def)
      next
        case (Some d)
        obtain ok info calls
          where l: "wait_loop W self d (t0 + 1000 * nat (max 1 timeout)) t0 None [] = ((ok, info), calls)"
          by (metis surj_pair)
        with wait_loop_success_flag [of W self d "t0 + 1000 * nat (max 1 timeout)" t0 None "[]"]
        have "ok" by simp
        with l Inr Some True show ?thesis by (simp add: wait_ready_def)
      qed
    qed
  qed
qed

lemma wait_ready_unresolved:
  "\<not> urllib_imported (W t0) \<or> env_dir (W t0) name = Inr None \<Longrightarrow>
     wait_ready W t0 self name timeout = (Inr (True, [(''ready'', PBool False)]), [])"
  by (auto simp: wait_ready_def)

text \<open>
  C10.  An identifier with a NUL character in it: \<open>resolve()\<close> raises \<open>ValueError\<close>, the
  call stands before the \<open>try\<close> of \<open>_env_dir\<close>, and \<open>wait_ready\<close> raises instead of
  returning \<open>True\<close> and \<open>ready = False\<close>.
\<close>

definition nul_name :: string where
  "nul_name = ''a'' @ [CHR 0x00] @ ''b''"

theorem wait_ready_nul_identifier_raises:
  "real_path demo_world (path_join (VULHUB_PATH demo_world) nul_name) = Inl ValueError
   \<and> wait_ready (\<lambda>t. demo_world) 0 demo_ops nul_name 20 = (Inl ValueError, [])"
  by code_simp

subsection \<open>What the loop reports\<close>

text \<open>A response returned by \<open>urlopen\<close> in the first round ends the wait with \<open>ready\<close> and
  the probed port.\<close>

lemma wait_loop_first_response:
  "now < deadline \<Longrightarrow> pick_host_ports (W now) self d = p # ps \<Longrightarrow> probe (W now) p \<Longrightarrow>
     fst (wait_loop W self d deadline now chosen_port calls)
       = (True, [(''ready'', PBool True), (''port'', PInt (int p))])"
  by (subst wait_loop.simps) simp

text \<open>While no port is ever published the wait ends with \<open>ready = False\<close> and no port.\<close>

lemma wait_loop_no_port:
  "(\<And>t. pick_host_ports (W t) self d = []) \<Longrightarrow>
     fst (wait_loop W self d deadline now None calls) = (True, [(''ready'', PBool False)])"
proof (induction W self d deadline now "None :: nat option" calls rule: wait_loop.induct)
  case (1 W self d deadline now calls)
  show ?case
    by (subst wait_loop.simps) (use 1 in \<open>auto simp: not_ready_def\<close>)
qed

text \<open>While the same port \<open>p > 0\<close> is published and no probe gets a response, the wait
  ends with \<open>ready = False\<close> and that port.\<close>

lemma wait_loop_silent_port:
  "(\<And>t. \<exists>ps. pick_host_ports (W t) self d = p # ps) \<Longrightarrow> (\<And>t. \<not> probe (W t) p) \<Longrightarrow> p \<noteq> 0 \<Longrightarrow>
   chosen_port = None \<or> chosen_port = Some p \<Longrightarrow> now < deadline \<or> chosen_port = Some p \<Longrightarrow>
     fst (wait_loop W self d deadline now chosen_port calls)
       = (True, [(''ready'', PBool False), (''port'', PInt (int p))])"
proof (induction W self d deadline now chosen_port calls rule: wait_loop.induct)
  case (1 W self d deadline now chosen_port calls)
  show ?case
  proof (cases "now < deadline")
    case True
    from "1.prems"(1) obtain ps where ps: "pick_host_ports (W now) self d = p # ps" by blast
    have np: "\<not> probe (W now) p" by (rule "1.prems"(2))
    have "fst (wait_loop W self d deadline (now + round_cost (W now) + 1000) (Some p)
                 (calls @ [(cmd self [''ps'', ''--format'', ''json''], Some d)]))
            = (True, [(''ready'', PBool False), (''port'', PInt (int p))])"
      by (rule "1.IH"(2) [OF True ps np]) (use "1.prems" in auto)
    then show ?thesis
      by (subst wait_loop.simps) (simp add: True ps np)
  next
    case False
    with "1.prems" have "chosen_port = Some p" by auto
    with False "1.prems"(3) show ?thesis
      by (subst wait_loop.simps) (simp add: not_ready_def)
  qed
qed

subsection \<open>A server that answers 404\<close>

lemma demo_ps_run:
  "run demo_world (cmd demo_ops [''ps'', ''--format'', ''json''])
       (Some (demo_root @ [''nginx'', ''CVE-2017-7529'']))
     = (True, demo_ps_line @ [CHR 0x0A], [])"
  by code_simp

lemma demo_ps_lines:
  "filter (\<lambda>x. py_strip x \<noteq> []) (py_splitlines (demo_ps_line @ [CHR 0x0A])) = [demo_ps_line]"
  by code_simp

lemma demo_ps_loads:
  "json_loads demo_world demo_ps_line = Some (PDict [(PStr ''Ports'', PStr ''0.0.0.0:8080->80/tcp'')])"
  by code_simp

lemma demo_ports_text: "parse_ports_string ''0.0.0.0:8080->80/tcp'' = [8080]"
  by code_simp

lemma demo_ps_ports:
  "collect_ports [PDict [(PStr ''Ports'', PStr ''0.0.0.0:8080->80/tcp'')]] [] = [8080]"
  by (simp add: dict_get_def demo_ports_text add_new_def)

lemma demo_pick:
  "pick_host_ports demo_world demo_ops (demo_root @ [''nginx'', ''CVE-2017-7529'']) = [8080]"
  by (simp add: pick_host_ports_def demo_ps_run demo_ps_lines demo_ps_loads dict_get_def
      demo_ports_text add_new_def)

lemma demo_urls:
  "urlopen demo_world ''http://127.0.0.1:8080'' = HTTPError 404"
  "urlopen demo_world ''https://127.0.0.1:8080'' = HTTPError 404"
  by code_simp+

lemma demo_port_text: "digits_of 8080 = ''8080''"
  by (simp add: digits_of.simps)

lemma demo_probe: "probe demo_world 8080 = False"
  by (simp add: probe_def demo_port_text demo_urls)

lemma demo_cost: "round_cost demo_world = 0" "urllib_imported demo_world"
  by code_simp+

text \<open>
  C4.  The port 8080 is published and the server answers every request, with status
  404.  \<open>urlopen\<close> raises \<open>HTTPError\<close> for that answer, the \<open>except\<close> clause swallows it, and
  after the two rounds that fit into two seconds \<open>wait_ready\<close> reports \<open>ready = False\<close>
  with the port, where the claim (and the docstring: ready once connected) says
  \<open>ready = True\<close>.
\<close>

theorem wait_ready_http_error_not_ready:
  "urlopen demo_world ''http://127.0.0.1:8080'' = urlopen_for (Status 404)
   \<and> wait_ready (\<lambda>t. demo_world) 0 demo_ops ''nginx/CVE-2017-7529'' 2 =
       (Inr (True, [(''ready'', PBool False), (''port'', PInt 8080)]),
        [([''docker'', ''compose'', ''ps'', ''--format'', ''json''],
          Some [''/'', ''srv'', ''vulhub'', ''nginx'', ''CVE-2017-7529'']),
         ([''docker'', ''compose'', ''ps'', ''--format'', ''json''],
          Some [''/'', ''srv'', ''vulhub'', ''nginx'', ''CVE-2017-7529''])])"
proof -
  have u: "urlopen demo_world ''http://127.0.0.1:8080'' = urlopen_for (Status 404)"
    by code_simp
  have c: "cmd demo_ops [''ps'', ''--format'', ''json''] = [''docker'', ''compose'', ''ps'', ''--format'', ''json'']"
    by code_simp
  have r: "demo_root @ [''nginx'', ''CVE-2017-7529''] = [''/'', ''srv'', ''vulhub'', ''nginx'', ''CVE-2017-7529'']"
    by code_simp
  have "wait_loop (\<lambda>t. demo_world) demo_ops (demo_root @ [''nginx'', ''CVE-2017-7529'']) 2000 0 None [] =
       ((True, [(''ready'', PBool False), (''port'', PInt 8080)]),
        [(cmd demo_ops [''ps'', ''--format'', ''json''], Some (demo_root @ [''nginx'', ''CVE-2017-7529''])),
         (cmd demo_ops [''ps'', ''--format'', ''json''], Some (demo_root @ [''nginx'', ''CVE-2017-7529'']))])"
    apply (subst wait_loop.simps, simp add: demo_pick demo_probe demo_cost)
    apply (subst wait_loop.simps, simp add: demo_pick demo_probe demo_cost)
    apply (subst wait_loop.simps, simp add: not_ready_def)
    done
  then have w: "wait_ready (\<lambda>t. demo_world) 0 demo_ops ''nginx/CVE-2017-7529'' 2 =
       (Inr (True, [(''ready'', PBool False), (''port'', PInt 8080)]),
        [([''docker'', ''compose'', ''ps'', ''--format'', ''json''],
          Some [''/'', ''srv'', ''vulhub'', ''nginx'', ''CVE-2017-7529'']),
         ([''docker'', ''compose'', ''ps'', ''--format'', ''json''],
          Some [''/'', ''srv'', ''vulhub'', ''nginx'', ''CVE-2017-7529''])])"
    by (simp add: wait_ready_def demo_cost demo_nginx_dir c r)
  show ?thesis by (rule conjI [OF u w])
qed

section \<open>Manifests on disk\<close>

text \<open>
  What a scan sees of one directory that holds a \<open>docker-compose.yml\<close>:
  \<^item> \<open>dir_parts\<close>: the parts of the directory's path relative to the scan root;
  \<^item> \<open>dir_text\<close>: \<open>str(env_dir)\<close>, the path as the traversal yields it;
  \<^item> \<open>manifest_exists\<close>: \<open>compose_path.exists()\<close> when the parser looks at it;
  \<^item> \<open>manifest_text\<close>: the text of the manifest, \<open>None\<close> when reading it raises;
  \<^item> \<open>has_file name\<close>: \<open>(env_dir / name).exists()\<close>;
  \<^item> \<open>glob_names pattern\<close>: the names \<open>env_dir.glob(pattern)\<close> yields, in its order;
  \<^item> \<open>image_files\<close>, \<open>exploit_found\<close>, \<open>docker_images_exist\<close>: what \<open>_image_files\<close>,
    \<open>_has_exploit\<close> and \<open>_check_docker_images_exist\<close> of \<open>app.py\<close> return for it (probes of
    the directory and of the Docker daemon, taken as they come).
\<close>

record manifest_dir =
  dir_parts :: "string list"
  dir_text :: string
  manifest_exists :: bool
  manifest_text :: "string option"
  has_file :: "string \<Rightarrow> bool"
  glob_names :: "string \<Rightarrow> string list"
  image_files :: "string list"
  exploit_found :: bool
  docker_images_exist :: bool

text \<open>
  The tree and the libraries a scan uses:
  \<^item> \<open>root_exists\<close>: \<open>VULHUB_PATH.exists()\<close>;
  \<^item> \<open>compose_files\<close>: \<open>list(root.rglob('docker-compose.yml'))\<close>, in the order of the
    traversal, or what it raises;
  \<^item> \<open>yaml_imported\<close>: whether \<open>import yaml\<close> succeeded in \<open>app.py\<close>;
  \<^item> \<open>yaml_safe_load\<close>: the library's \<open>yaml.safe_load\<close>, \<open>None\<close> where it raises (the parser
    is not modelled, a disk supplies it);
  \<^item> \<open>md5_hex\<close>: \<open>hashlib.md5(text.encode()).hexdigest()\<close>;
  \<^item> \<open>root_text\<close>: \<open>str(VULHUB_PATH)\<close>.
\<close>

record disk =
  root_exists :: bool
  compose_files :: "error + manifest_dir list"
  yaml_imported :: bool
  yaml_safe_load :: "string \<Rightarrow> pyval option"
  md5_hex :: "string \<Rightarrow> string"
  root_text :: string

section \<open>Parsing a manifest (app.py)\<close>

text \<open>
  What one entry of a \<open>ports\<close> list adds to \<open>host_ports\<close>.  A string with a colon gives
  \<open>str(int(parts[-2]))\<close>, or nothing when \<open>int\<close> raises; a string without a colon gives
  itself; a dictionary gives \<open>str\<close> of its \<open>published\<close> when that is true; anything else
  gives nothing.
\<close>

definition item_host_ports :: "pyval \<Rightarrow> string list" where
  "item_host_ports item =
     (case item of
        PStr s \<Rightarrow>
          (let parts = py_split CHR '':'' s in
           if length parts \<ge> 2 then
             (case py_int (parts ! (length parts - 2)) of
                Some i \<Rightarrow> [py_str_int i]
              | None \<Rightarrow> [])
           else [parts ! 0])
      | PDict kvs \<Rightarrow>
          (if truthy (dict_get kvs ''published'') then [py_str (dict_get kvs ''published'')] else [])
      | _ \<Rightarrow> [])"

text \<open>
  One round of the loop over the services.  The state is \<open>(services, ports_map)\<close>; beside
  it stands what the round raised, if it did (a service that is no dictionary has no
  \<open>get\<close>, a \<open>ports\<close> that is true and cannot be iterated).  The state is what the two
  collections hold at that moment: \<open>services\<close> already has the name.
\<close>

type_synonym parse_state = "string list \<times> (pyval \<times> string) list"

definition parse_service :: "pyval \<Rightarrow> pyval \<Rightarrow> parse_state \<Rightarrow> parse_state \<times> error option" where
  "parse_service svc_name svc_cfg st =
     (case st of
        (services, ports_map) \<Rightarrow>
          (case svc_cfg of
             PDict kvs \<Rightarrow>
               (case py_iter (if truthy (dict_get kvs ''ports'') then dict_get kvs ''ports'' else PList []) of
                  None \<Rightarrow> ((services @ [py_str svc_name], ports_map), Some TypeError)
                | Some port_list \<Rightarrow>
                    (case concat (map item_host_ports port_list) of
                       [] \<Rightarrow> ((services @ [py_str svc_name], ports_map), None)
                     | hp # hps \<Rightarrow>
                         ((services @ [py_str svc_name], dict_set ports_map svc_name hp), None)))
           | _ \<Rightarrow> ((services @ [py_str svc_name], ports_map), Some AttributeError)))"

fun parse_services :: "(pyval \<times> pyval) list \<Rightarrow> parse_state \<Rightarrow> parse_state \<times> error option" where
  "parse_services [] st = (st, None)"
| "parse_services ((svc_name, svc_cfg) # rest) st =
     (case parse_service svc_name svc_cfg st of
        (st', None) \<Rightarrow> parse_services rest st'
      | (st', Some e) \<Rightarrow> (st', Some e))"

text \<open>
  The body of the \<open>try\<close> in \<open>_compose_parse_services_ports\<close>: the two collections as they
  stand at its end, and the exception that ended it, if one did.  \<open>_read_text\<close> gives the
  empty text when reading raises; \<open>YAMLError\<close> stands for whatever the loader raises.
\<close>

definition parse_attempt :: "disk \<Rightarrow> manifest_dir \<Rightarrow> parse_state \<times> error option" where
  "parse_attempt dk d =
     (case yaml_safe_load dk (case manifest_text d of None \<Rightarrow> [] | Some t \<Rightarrow> t) of
        None \<Rightarrow> (([], []), Some YAMLError)
      | Some v \<Rightarrow>
          (case (if truthy v then v else PDict []) of
             PDict kvs \<Rightarrow>
               (case (if truthy (dict_get kvs ''services'') then dict_get kvs ''services'' else PDict []) of
                  PDict svcs \<Rightarrow> parse_services svcs ([], [])
                | _ \<Rightarrow> (([], []), Some AttributeError))
           | _ \<Rightarrow> (([], []), Some AttributeError)))"

text \<open>
  \<open>_compose_parse_services_ports\<close>: without the file, or without the YAML library, two
  empty collections; else what the \<open>try\<close> left in them, whether it ended by itself or by
  an exception (the handler passes).
\<close>

definition compose_parse_services_ports :: "disk \<Rightarrow> manifest_dir \<Rightarrow> parse_state" where
  "compose_parse_services_ports dk d =
     (if \<not> manifest_exists d then ([], [])
      else if yaml_imported dk then fst (parse_attempt dk d)
      else ([], []))"

section \<open>Extracting ports (vulhub_manager.py)\<close>

text \<open>\<open>'ports' in service\<close> and \<open>service['ports']\<close>, by the type of \<open>service\<close>.\<close>

definition has_ports_key :: "pyval \<Rightarrow> error + bool" where
  "has_ports_key service =
     (case service of
        PDict kvs \<Rightarrow> Inr (PStr ''ports'' \<in> fst ` set kvs)
      | PList xs \<Rightarrow> Inr (PStr ''ports'' \<in> set xs)
      | PStr s \<Rightarrow> Inr (py_contains ''ports'' s)
      | _ \<Rightarrow> Inl TypeError)"

definition get_ports_item :: "pyval \<Rightarrow> error + pyval" where
  "get_ports_item service =
     (case service of
        PDict kvs \<Rightarrow> (case map_of kvs (PStr ''ports'') of None \<Rightarrow> Inl KeyError | Some v \<Rightarrow> Inr v)
      | _ \<Rightarrow> Inl TypeError)"

text \<open>The loop over the port mappings of one service: the first whose text has a colon
  decides, and its text up to the first colon is the host port.\<close>

fun first_port :: "pyval list \<Rightarrow> string option" where
  "first_port [] = None"
| "first_port (port_mapping # rest) =
     (if CHR '':'' \<in> set (py_str port_mapping)
      then Some (py_split CHR '':'' (py_str port_mapping) ! 0)
      else first_port rest)"

fun extract_services :: "(pyval \<times> pyval) list \<Rightarrow> (pyval \<times> string) list \<Rightarrow> error + (pyval \<times> string) list" where
  "extract_services [] ports = Inr ports"
| "extract_services ((service_name, service) # rest) ports =
     (case has_ports_key service of
        Inl e \<Rightarrow> Inl e
      | Inr False \<Rightarrow> extract_services rest ports
      | Inr True \<Rightarrow>
          (case get_ports_item service of
             Inl e \<Rightarrow> Inl e
           | Inr v \<Rightarrow>
               (case py_iter v of
                  None \<Rightarrow> Inl TypeError
                | Some items \<Rightarrow>
                    (case first_port items of
                       None \<Rightarrow> extract_services rest ports
                     | Some host_port \<Rightarrow> extract_services rest (dict_set ports service_name host_port)))))"

text \<open>\<open>config.get('services', {})\<close>: the default stands in only where the key is absent.\<close>

definition services_of :: "pyval \<Rightarrow> error + (pyval \<times> pyval) list" where
  "services_of config =
     (case config of
        PDict kvs \<Rightarrow>
          (case map_of kvs (PStr ''services'') of
             None \<Rightarrow> Inr []
           | Some (PDict svcs) \<Rightarrow> Inr svcs
           | Some _ \<Rightarrow> Inl AttributeError)
      | _ \<Rightarrow> Inl AttributeError)"

definition extract_ports :: "pyval \<Rightarrow> error + (pyval \<times> string) list" where
  "extract_ports config =
     (case services_of config of Inl e \<Rightarrow> Inl e | Inr svcs \<Rightarrow> extract_services svcs [])"

section \<open>Scanning the tree (app.py)\<close>

text \<open>\<open>as_posix parts\<close> is the text of a relative path: its parts joined by slashes, a dot
  for the empty path.\<close>

definition as_posix :: "string list \<Rightarrow> string" where
  "as_posix parts = (if parts = [] then ''.'' else join ''/'' parts)"



section \<open>Scanning the tree (vulhub_manager.py)\<close>












section \<open>A concrete tree\<close>

text \<open>
  Four manifests, in the order a traversal might find them.  The YAML parser is the
  disk's: each manifest text stands for the document beside it.
  \<^item> \<open>nginx/CVE-2017-7529\<close>: service \<open>web\<close> publishes \<open>127.0.0.1:8080:80\<close> and \<open>8443:443\<close>,
    service \<open>db\<close> gives its port as a mapping with \<open>published: 8080\<close>;
  \<^item> \<open>httpd/CVE-2021-41773\<close>: service \<open>web\<close> publishes \<open>8080:80\<close>;
  \<^item> \<open>broken/app\<close>: a manifest the loader rejects;
  \<^item> \<open>apps/half\<close>: service \<open>web\<close> publishes \<open>8080:80\<close>, service \<open>db\<close> is empty (\<open>None\<close>),
    service \<open>cache\<close> follows it.
\<close>

definition nginx_services :: "(pyval \<times> pyval) list" where
  "nginx_services =
     [(PStr ''web'', PDict [(PStr ''image'', PStr ''nginx:1.25''),
                            (PStr ''ports'', PList [PStr ''127.0.0.1:8080:80'', PStr ''8443:443''])]),
      (PStr ''db'', PDict [(PStr ''image'', PStr ''redis:7''),
                           (PStr ''ports'',
                            PList [PDict [(PStr ''target'', PInt 80), (PStr ''published'', PInt 8080)]])])]"

definition nginx_compose :: pyval where
  "nginx_compose = PDict [(PStr ''version'', PStr ''2''), (PStr ''services'', PDict nginx_services)]"

definition httpd_compose :: pyval where
  "httpd_compose =
     PDict [(PStr ''services'', PDict [(PStr ''web'', PDict [(PStr ''ports'', PList [PStr ''8080:80''])])])]"

definition half_compose :: pyval where
  "half_compose =
     PDict [(PStr ''services'',
             PDict [(PStr ''web'', PDict [(PStr ''ports'', PList [PStr ''8080:80''])]),
                    (PStr ''db'', PNone),
                    (PStr ''cache'', PDict [(PStr ''ports'', PList [PStr ''6379:6379''])])])]"

definition demo_dir :: "string list \<Rightarrow> string \<Rightarrow> manifest_dir" where
  "demo_dir parts text =
     \<lparr>dir_parts = parts, dir_text = ''/srv/vulhub/'' @ join ''/'' parts, manifest_exists = True,
      manifest_text = Some text, has_file = (\<lambda>name. name = ''README.md''),
      glob_names = (\<lambda>pattern. if pattern = ''*.py'' then [''poc.py'', ''setup.py''] else []),
      image_files = [], exploit_found = True, docker_images_exist = False\<rparr>"

definition demo_dirs :: "manifest_dir list" where
  "demo_dirs =
     [demo_dir [''nginx'', ''CVE-2017-7529''] ''nginx manifest'',
      demo_dir [''httpd'', ''CVE-2021-41773''] ''httpd manifest'',
      demo_dir [''broken'', ''app''] ''{{'',
      demo_dir [''apps'', ''half''] ''half manifest'']"

definition demo_yaml :: "string \<Rightarrow> pyval option" where
  "demo_yaml text =
     (if text = ''nginx manifest'' then Some nginx_compose
      else if text = ''httpd manifest'' then Some httpd_compose
      else if text = ''half manifest'' then Some half_compose
      else if text = [] then Some PNone
      else None)"

text \<open>The digest of this disk is a stand-in that tells all texts apart.\<close>

definition demo_disk :: disk where
  "demo_disk =
     \<lparr>root_exists = True, compose_files = Inr demo_dirs, yaml_imported = True,
      yaml_safe_load = demo_yaml, md5_hex = (\<lambda>text. ''md5 of '' @ text),
      root_text = ''/srv/vulhub''\<rparr>"

section \<open>Port extraction\<close>

text \<open>In \<open>app.py\<close> the host port of a string entry comes from the second-to-last token
  between colons: the text of the integer it spells, or nothing when it spells none.\<close>

lemma item_host_ports_second_to_last:
  assumes "py_split CHR '':'' s = pre @ [tok, post]"
  shows "item_host_ports (PStr s) = (case py_int tok of Some i \<Rightarrow> [py_str_int i] | None \<Rightarrow> [])"
proof -
  have "length (py_split CHR '':'' s) \<ge> 2" using assms by simp
  moreover have "py_split CHR '':'' s ! (length (py_split CHR '':'' s) - 2) = tok"
    using assms by (simp add: nth_append)
  ultimately show ?thesis by (simp add: item_host_ports_def Let_def)
qed

lemma item_host_ports_published:
  "item_host_ports (PDict kvs) =
     (if truthy (dict_get kvs ''published'') then [py_str (dict_get kvs ''published'')] else [])"
  by (simp add: item_host_ports_def)

lemma demo_port_texts:
  "py_str_int 8080 = ''8080''" "py_str_int 80 = ''80''" "py_str_int 8443 = ''8443''"
  by (simp_all add: py_str_int_def digits_of.simps)

lemma demo_port_items:
  "item_host_ports (PStr ''127.0.0.1:8080:80'') = [''8080'']"
  "item_host_ports (PStr ''8080:80'') = [''8080'']"
  "item_host_ports (PStr ''8443:443'') = [''8443'']"
  "item_host_ports (PStr ''eighty:80'') = []"
  "item_host_ports (PDict [(PStr ''target'', PInt 80), (PStr ''published'', PInt 8080)]) = [''8080'']"
proof -
  have s: "py_split CHR '':'' ''127.0.0.1:8080:80'' = [''127.0.0.1''] @ [''8080'', ''80'']"
    "py_split CHR '':'' ''8080:80'' = [] @ [''8080'', ''80'']"
    "py_split CHR '':'' ''8443:443'' = [] @ [''8443'', ''443'']"
    "py_split CHR '':'' ''eighty:80'' = [] @ [''eighty'', ''80'']"
    by code_simp+
  have i: "py_int ''8080'' = Some 8080" "py_int ''8443'' = Some 8443" "py_int ''eighty'' = None"
    by code_simp+
  show "item_host_ports (PStr ''127.0.0.1:8080:80'') = [''8080'']"
    by (simp add: item_host_ports_second_to_last [OF s(1)] i demo_port_texts)
  show "item_host_ports (PStr ''8080:80'') = [''8080'']"
    by (simp add: item_host_ports_second_to_last [OF s(2)] i demo_port_texts)
  show "item_host_ports (PStr ''8443:443'') = [''8443'']"
    by (simp add: item_host_ports_second_to_last [OF s(3)] i demo_port_texts)
  show "item_host_ports (PStr ''eighty:80'') = []"
    by (simp add: item_host_ports_second_to_last [OF s(4)] i)
  show "item_host_ports (PDict [(PStr ''target'', PInt 80), (PStr ''published'', PInt 8080)]) = [''8080'']"
    by (simp add: item_host_ports_def dict_get_def py_str_def demo_port_texts)
qed

lemma demo_parse_nginx:
  "parse_services nginx_services ([], []) =
     (([''web'', ''db''], [(PStr ''web'', ''8080''), (PStr ''db'', ''8080'')]), None)"
  by (simp add: nginx_services_def parse_service_def dict_get_def py_iter_def demo_port_items
      py_str_def dict_set_def)

lemma demo_mapping_text:
  "py_str (PDict [(PStr ''target'', PInt 80), (PStr ''published'', PInt 8080)])
     = ''{'' @ [CHR 0x27] @ ''target'' @ [CHR 0x27] @ '': 80, ''
       @ [CHR 0x27] @ ''published'' @ [CHR 0x27] @ '': 8080}''"
  by (simp add: py_str_def demo_port_texts repr_str_def repr_char_def Let_def)

lemma demo_extract_nginx:
  "extract_ports nginx_compose =
     Inr [(PStr ''web'', ''127.0.0.1''), (PStr ''db'', ''{'' @ [CHR 0x27] @ ''target'' @ [CHR 0x27])]"
proof -
  have m: "py_split CHR '':'' (py_str (PDict [(PStr ''target'', PInt 80), (PStr ''published'', PInt 8080)])) ! 0
             = ''{'' @ [CHR 0x27] @ ''target'' @ [CHR 0x27]"
    unfolding demo_mapping_text by code_simp
  have c: "CHR '':'' \<in> set (py_str (PDict [(PStr ''target'', PInt 80), (PStr ''published'', PInt 8080)]))"
    unfolding demo_mapping_text by code_simp
  have w: "py_split CHR '':'' ''127.0.0.1:8080:80'' ! 0 = ''127.0.0.1''"
    by code_simp
  show ?thesis
    using m c w
    by (simp add: extract_ports_def services_of_def nginx_compose_def nginx_services_def
        has_ports_key_def get_ports_item_def py_iter_def dict_set_def py_str_def)
qed

text \<open>
  C2.  \<open>VulhubManager._extract_ports\<close> takes the first token, not the second-to-last:
  for the declaration \<open>127.0.0.1:8080:80\<close> it records the bind address \<open>127.0.0.1\<close> as the
  host port of the service, and for a port given as a mapping it records the start of
  the mapping's printed form, \<open>{'target'\<close>, not the \<open>published\<close> value.  The parser of
  \<open>app.py\<close> gives \<open>8080\<close> for both on the same manifest.
\<close>

theorem extract_ports_first_token:
  "extract_ports nginx_compose =
     Inr [(PStr ''web'', ''127.0.0.1''),
          (PStr ''db'', ''{'' @ [CHR 0x27] @ ''target'' @ [CHR 0x27])]
   \<and> fst (parse_services nginx_services ([], [])) =
       ([''web'', ''db''], [(PStr ''web'', ''8080''), (PStr ''db'', ''8080'')])"
  by (simp add: demo_extract_nginx demo_parse_nginx)

section \<open>The order of a scan\<close>












section \<open>The two scans on the concrete tree\<close>





















section \<open>Order and completeness of the two scans\<close>





section \<open>Manifests that do not parse\<close>


lemma demo_broken_parse:
  "compose_parse_services_ports demo_disk (demo_dir [''broken'', ''app''] ''{{'') = ([], [])"
  by code_simp




section \<open>The cache file\<close>

text \<open>
  The JSON library is not modelled: \<open>json_decode\<close> is \<open>json.load\<close> on a text (\<open>None\<close> where it
  raises), \<open>json_chunks v\<close> the pieces \<open>json.dump(v, f)\<close> hands to \<open>f.write\<close>, in order, and
  \<open>json_raises v\<close> says that the encoder raises after them (a value it cannot encode).
  \<open>other_expired\<close> is the arithmetic on a decoded number that is no integer, see \<open>expired\<close>
  below.
\<close>

record json_lib =
  json_decode :: "string \<Rightarrow> pyval option"
  json_chunks :: "pyval \<Rightarrow> string list"
  json_raises :: "pyval \<Rightarrow> bool"
  other_expired :: "int \<Rightarrow> string \<Rightarrow> bool option"

text \<open>
  Writing a file the way both modules do: \<open>open(path, 'w')\<close> empties the file, the pieces
  follow one by one, and closing the file (the \<open>with\<close> block does it also when an
  exception passes through) puts what was written on the disk.  The fault says what goes
  wrong: nothing; the \<open>open\<close> itself; an exception after \<open>k\<close> pieces; or the end of the
  process when \<open>n\<close> characters have reached the disk.  The result is the file afterwards
  (\<open>None\<close>: there is none) and whether an exception was raised.
\<close>

datatype write_fault = NoFault | OpenFails | FailsAfter nat | CrashAfter nat

definition write_file :: "string option \<Rightarrow> string list \<Rightarrow> write_fault \<Rightarrow> string option \<times> bool" where
  "write_file old chunks fault =
     (case fault of
        NoFault \<Rightarrow> (Some (concat chunks), False)
      | OpenFails \<Rightarrow> (old, True)
      | FailsAfter k \<Rightarrow> (Some (concat (take k chunks)), True)
      | CrashAfter n \<Rightarrow> (Some (take n (concat chunks)), False))"

text \<open>\<open>CACHE_TTL_MS\<close>, and \<open>_calculate_vulhub_hash\<close>: the digest of the sorted relative
  manifest paths, concatenated; \<open>None\<close> when the traversal raises.\<close>

definition CACHE_TTL_MS :: int where
  "CACHE_TTL_MS = 24 * 60 * 60 * 1000"

definition manifest_path :: "manifest_dir \<Rightarrow> string" where
  "manifest_path d = as_posix (dir_parts d @ [''docker-compose.yml''])"

definition paths_str :: "manifest_dir list \<Rightarrow> string" where
  "paths_str ds = concat (sort (map manifest_path ds))"

definition calculate_vulhub_hash :: "disk \<Rightarrow> pyval" where
  "calculate_vulhub_hash dk =
     (case compose_files dk of
        Inl e \<Rightarrow> PNone
      | Inr ds \<Rightarrow> PStr (md5_hex dk (paths_str ds)))"

text \<open>
  The test \<open>_now_ms() - cache_ts > CACHE_TTL_MS\<close> on a decoded timestamp: an integer, or a
  boolean as 0 or 1, is subtracted as it is; for a value of another type (a float, when
  the stored number has a fraction or an exponent) \<open>oth now r\<close> says what the test
  gives, \<open>r\<close> being the value's \<open>repr\<close>; \<open>None\<close> where the subtraction raises \<open>TypeError\<close>.
\<close>

definition expired :: "(int \<Rightarrow> string \<Rightarrow> bool option) \<Rightarrow> int \<Rightarrow> pyval \<Rightarrow> bool option" where
  "expired oth now v =
     (case v of
        PInt i \<Rightarrow> Some (now - i > CACHE_TTL_MS)
      | PBool b \<Rightarrow> Some (now - (if b then 1 else 0) > CACHE_TTL_MS)
      | POther t s r \<Rightarrow> oth now r
      | _ \<Rightarrow> None)"

text \<open>\<open>d.get(k, default)\<close>, and whether \<open>len(v)\<close> is defined.\<close>

definition dict_get_default :: "(pyval \<times> pyval) list \<Rightarrow> string \<Rightarrow> pyval \<Rightarrow> pyval" where
  "dict_get_default kvs k dflt = (case map_of kvs (PStr k) of None \<Rightarrow> dflt | Some v \<Rightarrow> v)"

definition has_len :: "pyval \<Rightarrow> bool" where
  "has_len v = (case v of PStr s \<Rightarrow> True | PList xs \<Rightarrow> True | PDict kvs \<Rightarrow> True | _ \<Rightarrow> False)"

text \<open>
  \<open>_load_persistent_cache\<close>, at clock reading \<open>now\<close> on the cache file \<open>file\<close>: the stored
  environments, or \<open>None\<close>.  Every exception inside ends in \<open>None\<close>: a text that is no
  JSON, a document that is no dictionary, a timestamp that is no number, environments
  that have no length (the message printed before the return takes it).
\<close>

definition load_persistent_cache :: "disk \<Rightarrow> json_lib \<Rightarrow> int \<Rightarrow> string option \<Rightarrow> pyval option" where
  "load_persistent_cache dk J now file =
     (case file of
        None \<Rightarrow> None
      | Some text \<Rightarrow>
          (case json_decode J text of
             None \<Rightarrow> None
           | Some (PDict kvs) \<Rightarrow>
               (case expired (other_expired J) now (dict_get_default kvs ''timestamp'' (PInt 0)) of
                  None \<Rightarrow> None
                | Some late \<Rightarrow>
                    if late then None
                    else if dict_get kvs ''vulhub_hash'' \<noteq> calculate_vulhub_hash dk then None
                    else if \<not> has_len (dict_get_default kvs ''environments'' (PList [])) then None
                    else Some (dict_get_default kvs ''environments'' (PList [])))
           | Some _ \<Rightarrow> None))"

text \<open>The envelope \<open>_save_persistent_cache\<close> builds, and the file after it ran: the
  function swallows every exception.\<close>

definition envelope :: "disk \<Rightarrow> int \<Rightarrow> pyval \<Rightarrow> pyval" where
  "envelope dk now environments =
     PDict [(PStr ''environments'', environments),
            (PStr ''timestamp'', PInt now),
            (PStr ''vulhub_hash'', calculate_vulhub_hash dk),
            (PStr ''vulhub_path'', PStr (root_text dk))]"

definition encoder_fault :: "json_lib \<Rightarrow> pyval \<Rightarrow> write_fault \<Rightarrow> write_fault" where
  "encoder_fault J v fault =
     (if fault = NoFault \<and> json_raises J v then FailsAfter (length (json_chunks J v)) else fault)"

definition save_persistent_cache ::
  "disk \<Rightarrow> json_lib \<Rightarrow> int \<Rightarrow> string option \<Rightarrow> pyval \<Rightarrow> write_fault \<Rightarrow> string option" where
  "save_persistent_cache dk J now file environments fault =
     fst (write_file file (json_chunks J (envelope dk now environments))
            (encoder_fault J (envelope dk now environments) fault))"

text \<open>\<open>VulhubManager._save_to_cache\<close> writes the list of its records the same way, and
  lets the exception pass: the file afterwards, and whether it raised.\<close>

definition save_to_cache ::
  "json_lib \<Rightarrow> string option \<Rightarrow> pyval \<Rightarrow> write_fault \<Rightarrow> string option \<times> bool" where
  "save_to_cache J file cache_data fault =
     write_file file (json_chunks J cache_data) (encoder_fault J cache_data fault)"

section \<open>Loading the cache\<close>








text \<open>
  A stand-in for the JSON library: one text, \<open>stored\<close>, decodes to the envelope that was
  written at clock reading 1000 while the tree held the first three manifests only; on
  writing, every value goes out in three pieces.
\<close>

definition earlier_disk :: disk where
  "earlier_disk = demo_disk\<lparr>compose_files := Inr (take 3 demo_dirs)\<rparr>"

definition demo_json :: json_lib where
  "demo_json =
     \<lparr>json_decode = (\<lambda>text. if text = ''stored'' then Some (envelope earlier_disk 1000 (PList [])) else None),
      json_chunks = (\<lambda>v. [''{'', ''envelope'', ''}'']),
      json_raises = (\<lambda>v. False),
      other_expired = (\<lambda>now r. None)\<rparr>"

lemma demo_json_fields:
  "json_decode demo_json ''stored'' = Some (envelope earlier_disk 1000 (PList []))"
  "json_chunks demo_json v = [''{'', ''envelope'', ''}'']" "json_raises demo_json v = False"
  by (simp_all add: demo_json_def)






section \<open>Storing the cache\<close>

lemma concat_take_prefix: "prefix (concat (take k xs)) (concat xs)"
proof -
  have "concat xs = concat (take k xs) @ concat (drop k xs)"
    by (simp only: concat_append [symmetric] append_take_drop_id)
  then show ?thesis by (rule prefixI)
qed

lemma concat_take_strict_prefix:
  assumes "k < length xs" and "[] \<notin> set xs"
  shows "strict_prefix (concat (take k xs)) (concat xs)"
proof -
  have c: "concat xs = concat (take k xs) @ concat (drop k xs)"
    by (simp only: concat_append [symmetric] append_take_drop_id)
  from assms(1) obtain y ys where d: "drop k xs = y # ys"
    by (cases "drop k xs") simp_all
  then have "y \<in> set xs"
    using set_drop_subset [of k xs] by auto
  with assms(2) have "y \<noteq> []" by auto
  with d have "concat (drop k xs) \<noteq> []" by simp
  with c show ?thesis by (simp add: strict_prefix_def prefix_def)
qed

lemma write_file_old_or_prefix:
  "fst (write_file old chunks fault) = old
   \<or> (\<exists>t. fst (write_file old chunks fault) = Some t \<and> prefix t (concat chunks))"
  by (cases fault) (simp_all add: write_file_def concat_take_prefix take_is_prefix)

text \<open>
  C6 (as amended).  Both stores write the cache file in place: \<open>open(..., 'w')\<close> empties the
  file and the encoder's pieces follow one by one; there is no temporary file and no
  rename.  Afterwards the file is the previous one (only when the \<open>open\<close> itself failed) or
  holds a prefix of the new text: the whole text when nothing fails, and a proper prefix
  of it, with an exception raised, when the write fails after some but not all of the
  pieces.  \<open>_save_persistent_cache\<close> leaves the file as \<open>_save_to_cache\<close> would and swallows the
  exception.
\<close>

theorem cache_written_in_place:
  "save_persistent_cache dk J now file environments fault =
     fst (save_to_cache J file (envelope dk now environments) fault)
   \<and> (fst (save_to_cache J file v fault) = file
      \<or> (\<exists>t. fst (save_to_cache J file v fault) = Some t \<and> prefix t (concat (json_chunks J v))))
   \<and> (fault = NoFault \<and> \<not> json_raises J v
      \<longrightarrow> save_to_cache J file v fault = (Some (concat (json_chunks J v)), False))
   \<and> (fault = OpenFails \<longrightarrow> save_to_cache J file v fault = (file, True))
   \<and> (fault = FailsAfter k \<and> k < length (json_chunks J v) \<and> [] \<notin> set (json_chunks J v)
      \<longrightarrow> (\<exists>t. save_to_cache J file v fault = (Some t, True)
             \<and> strict_prefix t (concat (json_chunks J v))))"
proof -
  have a: "save_persistent_cache dk J now file environments fault =
     fst (save_to_cache J file (envelope dk now environments) fault)"
    by (simp add: save_persistent_cache_def save_to_cache_def)
  have b: "fst (save_to_cache J file v fault) = file
      \<or> (\<exists>t. fst (save_to_cache J file v fault) = Some t \<and> prefix t (concat (json_chunks J v)))"
    unfolding save_to_cache_def by (rule write_file_old_or_prefix)
  have c: "fault = NoFault \<and> \<not> json_raises J v
      \<longrightarrow> save_to_cache J file v fault = (Some (concat (json_chunks J v)), False)"
    by (simp add: save_to_cache_def encoder_fault_def write_file_def)
  have d: "fault = OpenFails \<longrightarrow> save_to_cache J file v fault = (file, True)"
    by (simp add: save_to_cache_def encoder_fault_def write_file_def)
  have e: "fault = FailsAfter k \<and> k < length (json_chunks J v) \<and> [] \<notin> set (json_chunks J v)
      \<longrightarrow> (\<exists>t. save_to_cache J file v fault = (Some t, True)
             \<and> strict_prefix t (concat (json_chunks J v)))"
    by (simp add: save_to_cache_def encoder_fault_def write_file_def concat_take_strict_prefix)
  from a b c d e show ?thesis by blast
qed

lemma demo_chunks_nonempty: "[] \<notin> set (json_chunks demo_json v)" "1 < length (json_chunks demo_json v)"
  by (simp_all add: demo_json_fields)

theorem cache_written_in_place_witness:
  "save_to_cache demo_json (Some ''stored'') (PList []) NoFault = (Some ''{envelope}'', False)
   \<and> save_to_cache demo_json (Some ''stored'') (PList []) OpenFails = (Some ''stored'', True)
   \<and> (\<exists>t. save_to_cache demo_json (Some ''stored'') (PList []) (FailsAfter 1) = (Some t, True)
         \<and> strict_prefix t ''{envelope}'')
   \<and> save_persistent_cache demo_disk demo_json 2000 (Some ''stored'') (PList []) NoFault =
       fst (save_to_cache demo_json (Some ''stored'') (envelope demo_disk 2000 (PList [])) NoFault)"
proof -
  have t: "concat (json_chunks demo_json v) = ''{envelope}''" for v
    by (simp add: demo_json_fields)
  have a: "save_to_cache demo_json (Some ''stored'') (PList []) NoFault = (Some ''{envelope}'', False)"
    using cache_written_in_place [of demo_disk demo_json 2000 "Some ''stored''" "PList []" NoFault "PList []" 1]
    by (simp add: demo_json_fields)
  have b: "save_to_cache demo_json (Some ''stored'') (PList []) OpenFails = (Some ''stored'', True)"
    using cache_written_in_place [of demo_disk demo_json 2000 "Some ''stored''" "PList []" OpenFails "PList []" 1]
    by simp
  have c: "\<exists>t. save_to_cache demo_json (Some ''stored'') (PList []) (FailsAfter 1) = (Some t, True)
         \<and> strict_prefix t ''{envelope}''"
    using cache_written_in_place [of demo_disk demo_json 2000 "Some ''stored''" "PList []" "FailsAfter 1" "PList []" 1]
      demo_chunks_nonempty [of "PList []"] t [of "PList []"]
    by simp
  have d: "save_persistent_cache demo_disk demo_json 2000 (Some ''stored'') (PList []) NoFault =
       fst (save_to_cache demo_json (Some ''stored'') (envelope demo_disk 2000 (PList [])) NoFault)"
    using cache_written_in_place [of demo_disk demo_json 2000 "Some ''stored''" "PList []" NoFault "PList []" 1]
    by blast
  from a b c d show ?thesis by blast
qed

text \<open>
  The claim as stated fails for both stores.  The cache file holds \<open>stored\<close>, which loads;
  the write of the next envelope fails after the first piece.  The file is then \<open>{\<close>:
  neither the previous text nor the new one, and it no longer loads.
\<close>

theorem store_not_atomic_counterexample:
  "load_persistent_cache earlier_disk demo_json 2000 (Some ''stored'') = Some (PList [])
   \<and> save_persistent_cache earlier_disk demo_json 2000 (Some ''stored'') (PList []) (FailsAfter 1)
       = Some ''{''
   \<and> save_to_cache demo_json (Some ''stored'') (PList []) (FailsAfter 1) = (Some ''{'', True)
   \<and> ''{'' \<noteq> ''stored''
   \<and> ''{'' \<noteq> concat (json_chunks demo_json (envelope earlier_disk 2000 (PList [])))
   \<and> load_persistent_cache earlier_disk demo_json 2000 (Some ''{'') = None"
proof -
  have k: "envelope earlier_disk 1000 (PList []) =
      PDict [(PStr ''environments'', PList []), (PStr ''timestamp'', PInt 1000),
             (PStr ''vulhub_hash'', calculate_vulhub_hash earlier_disk),
             (PStr ''vulhub_path'', PStr (root_text earlier_disk))]"
    by (simp add: envelope_def)
  have a: "load_persistent_cache earlier_disk demo_json 2000 (Some ''stored'') = Some (PList [])"
    by (simp add: load_persistent_cache_def demo_json_fields k dict_get_default_def dict_get_def
        expired_def CACHE_TTL_MS_def has_len_def)
  have b: "save_persistent_cache earlier_disk demo_json 2000 (Some ''stored'') (PList []) (FailsAfter 1)
       = Some ''{''"
    by (simp add: save_persistent_cache_def encoder_fault_def write_file_def demo_json_fields)
  have c: "save_to_cache demo_json (Some ''stored'') (PList []) (FailsAfter 1) = (Some ''{'', True)"
    by (simp add: save_to_cache_def encoder_fault_def write_file_def demo_json_fields)
  have d: "''{'' \<noteq> ''stored''" by simp
  have e: "''{'' \<noteq> concat (json_chunks demo_json (envelope earlier_disk 2000 (PList [])))"
    by (simp add: demo_json_fields)
  have f: "load_persistent_cache earlier_disk demo_json 2000 (Some ''{'') = None"
    by (simp add: load_persistent_cache_def demo_json_def)
  from a b c d e f show ?thesis by blast
qed

end
